theory Spec2Isabelle
  imports Main "HOL-Library.Word" "HOL-Library.Sublist"
begin

section \<open>Query tracker: the bounded request log of \<open>main.py\<close>\<close>

text \<open>
  The program records HTTP requests in one JSON file (\<open>DATA_FILE\<close>) and serves the
  history back. The embedding follows \<open>main.py\<close> function by function. What the
  program takes from outside (the file system, the \<open>json\<close> module, the web
  framework, the clock and the UUID generator) is modelled at the interface the source
  uses:
  \<^item> Python values are the datatype \<open>pyval\<close>: the JSON values and \<open>bytes\<close>. No
    arithmetic is done on a \<open>float\<close>: a finite one is held by its \<open>repr\<close>, and
    \<open>nan\<close>, \<open>inf\<close> and \<open>-inf\<close>, which \<open>json.loads\<close> returns for \<open>NaN\<close>,
    \<open>Infinity\<close> (or a literal such as \<open>1e999\<close>) and \<open>-Infinity\<close>, are values of
    their own;
  \<^item> a Python \<open>str\<close> is an Isabelle \<open>string\<close> holding its UTF-8 encoding;
  \<^item> a \<open>dict\<close> is an association list in insertion order;
  \<^item> an exception is a value of \<open>py_exn\<close>, and a function that may raise returns
    \<open>py_exn + 'a\<close> with \<open>Inl\<close> for the exception;
  \<^item> the file is explicit state, passed in and returned; a handler returns what it
    returned or raised together with the file it left, since it may raise after it wrote.

  \<open>save_query\<close> accepts any dictionary. The properties about the contents of the log
  take the records to be JSON values (\<open>json_native\<close>), as the data model has them: a
  value that holds \<open>bytes\<close> comes back from the file as its \<open>str\<close>.
\<close>

subsection \<open>Python values and exceptions\<close>

type_synonym byte = "8 word"

datatype pyfloat = Finite string | NaN | Infinity | NegInfinity

datatype pyval =
    PNone
  | PBool bool
  | PInt int
  | PFloat pyfloat
  | PStr string
  | PBytes "byte list"
  | PList "pyval list"
  | PDict "(string \<times> pyval) list"

datatype py_exn =
    FileNotFoundError
  | PermissionError
  | JSONDecodeError
  | UnicodeDecodeError
  | AttributeError
  | TypeError
  | ValueError
  | RecursionError
  | OtherError string

subsection \<open>\<open>str(b)\<close> for a \<open>bytes\<close> object\<close>

text \<open>
  \<open>json.dump(..., default=str)\<close> calls \<open>str\<close> on every object that JSON cannot
  hold; among \<open>pyval\<close> that is \<open>bytes\<close>, and \<open>str(b)\<close> is the literal
  \<open>b'...'\<close>: single quotes unless the bytes contain a single quote and no double
  quote, backslash escapes for the quote, the backslash, tab, newline and carriage return,
  \<open>\xhh\<close> for every other byte outside printable ASCII.
\<close>

definition hex_digit :: "nat \<Rightarrow> char" where
  "hex_digit n = ''0123456789abcdef'' ! (n mod 16)"

definition repr_byte :: "char \<Rightarrow> byte \<Rightarrow> string" where
  "repr_byte quote b =
     (let c = char_of (unat b) in
      if c = quote \<or> c = CHR 0x5C then [CHR 0x5C, c]
      else if b = 0x09 then [CHR 0x5C, CHR ''t'']
      else if b = 0x0A then [CHR 0x5C, CHR ''n'']
      else if b = 0x0D then [CHR 0x5C, CHR ''r'']
      else if b < 0x20 \<or> 0x7F \<le> b
        then [CHR 0x5C, CHR ''x'', hex_digit (unat b div 16), hex_digit (unat b mod 16)]
      else [c])"

definition bytes_str :: "byte list \<Rightarrow> string" where
  "bytes_str bs =
     (let quote = (if 0x27 \<in> set bs \<and> 0x22 \<notin> set bs then CHR 0x22 else CHR 0x27)
      in [CHR ''b'', quote] @ concat (map (repr_byte quote) bs) @ [quote])"

subsection \<open>The \<open>json\<close> module and the file\<close>

text \<open>
  \<open>jsonable v\<close> is the value \<open>json.load\<close> reads back from the text
  \<open>json.dump(v, f, indent=2, default=str)\<close> writes: \<open>v\<close> with every \<open>bytes\<close>
  object replaced by its \<open>str\<close>. A value without \<open>bytes\<close> is \<open>json_native\<close>.
  \<open>json.dump\<close> allows the floats that are not finite and writes them as \<open>NaN\<close>,
  \<open>Infinity\<close> and \<open>-Infinity\<close>, which \<open>json.load\<close> reads back.
\<close>

primrec jsonable :: "pyval \<Rightarrow> pyval" where
  "jsonable PNone = PNone"
| "jsonable (PBool b) = PBool b"
| "jsonable (PInt i) = PInt i"
| "jsonable (PFloat x) = PFloat x"
| "jsonable (PStr s) = PStr s"
| "jsonable (PBytes bs) = PStr (bytes_str bs)"
| "jsonable (PList xs) = PList (map jsonable xs)"
| "jsonable (PDict kvs) = PDict (map (map_prod id jsonable) kvs)"

fun json_native :: "pyval \<Rightarrow> bool" where
  "json_native (PBytes bs) = False"
| "json_native (PList xs) = list_all json_native xs"
| "json_native (PDict kvs) = list_all json_native (map snd kvs)"
| "json_native v = True"

text \<open>
  The state of \<open>DATA_FILE\<close>. The path is absent; or it exists and refuses to be opened
  (no permission, a directory in its place: \<open>open\<close> raises an \<open>OSError\<close> that is
  not \<open>FileNotFoundError\<close>); or it can be opened and holds some content. The content
  is either one on which \<open>json.load\<close> raises, or the text \<open>json.dump\<close> writes for a
  value \<open>v\<close> (\<open>Document v\<close>), which \<open>json.load\<close> reads back as \<open>jsonable v\<close>.
  What \<open>json.load\<close> raises depends on the content: \<open>JSONDecodeError\<close> for text that
  is not well-formed JSON (\<open>Malformed\<close>), \<open>UnicodeDecodeError\<close> for bytes that are
  not text in the encoding of the file, \<open>RecursionError\<close> for brackets nested beyond
  the recursion limit, \<open>ValueError\<close> for an integer literal beyond the digit limit.
\<close>

datatype content = Rejected py_exn | Document pyval

abbreviation Malformed :: content where
  "Malformed \<equiv> Rejected JSONDecodeError"

datatype data_file = Absent | Unreadable | Holds content

definition path_exists :: "data_file \<Rightarrow> bool" where
  "path_exists f = (f \<noteq> Absent)"

text \<open>\<open>with open(DATA_FILE, "r") as f: json.load(f)\<close>\<close>

fun read_json :: "data_file \<Rightarrow> py_exn + pyval" where
  "read_json Absent = Inl FileNotFoundError"
| "read_json Unreadable = Inl PermissionError"
| "read_json (Holds (Rejected ex)) = Inl ex"
| "read_json (Holds (Document v)) = Inr (jsonable v)"

text \<open>
  \<open>with open(DATA_FILE, "w") as f: json.dump(v, f, default=str)\<close>. The same
  function stands for the \<open>json.dump([], f)\<close> of \<open>clear_queries\<close>: the empty list
  never needs the default. When \<open>open\<close> raises, the file is as it was.
\<close>

fun write_json :: "pyval \<Rightarrow> data_file \<Rightarrow> py_exn + data_file" where
  "write_json v Unreadable = Inl PermissionError"
| "write_json v f = Inr (Holds (Document v))"

subsection \<open>The store: \<open>load_queries\<close> and \<open>save_query\<close>\<close>

text \<open>
  \<open>load_queries\<close>: the \<open>try\<close> block returns the parsed document when the path
  exists and falls out of the \<open>if\<close> otherwise (\<open>None\<close> below); the \<open>except\<close>
  clause swallows \<open>JSONDecodeError\<close> and \<open>FileNotFoundError\<close> and nothing else;
  after either, the function returns the empty list.
\<close>

definition load_queries :: "data_file \<Rightarrow> py_exn + pyval" where
  "load_queries f =
     (case (if path_exists f then map_sum id Some (read_json f) else Inr None) of
        Inr (Some v) \<Rightarrow> Inr v
      | Inr None \<Rightarrow> Inr (PList [])
      | Inl e \<Rightarrow> if e = JSONDecodeError \<or> e = FileNotFoundError then Inr (PList []) else Inl e)"

text \<open>\<open>queries.append(x)\<close>: only a list has the method.\<close>

fun py_append :: "pyval \<Rightarrow> pyval \<Rightarrow> py_exn + pyval list" where
  "py_append (PList xs) x = Inr (xs @ [x])"
| "py_append v x = Inl AttributeError"

text \<open>\<open>xs[-k:]\<close>: the last \<open>k\<close> elements, the whole list when it is shorter.\<close>

definition last_slice :: "nat \<Rightarrow> 'a list \<Rightarrow> 'a list" where
  "last_slice k xs = drop (length xs - k) xs"

definition save_query :: "pyval \<Rightarrow> data_file \<Rightarrow> py_exn + data_file" where
  "save_query query_data f =
     (case load_queries f of
        Inl e \<Rightarrow> Inl e
      | Inr loaded \<Rightarrow>
          (case py_append loaded query_data of
             Inl e \<Rightarrow> Inl e
           | Inr queries \<Rightarrow>
               write_json (PList (if length queries > 100 then last_slice 100 queries else queries)) f))"

subsection \<open>\<open>bytes.decode("utf-8", errors=...)\<close>\<close>

text \<open>
  The UTF-8 decoder of CPython, with its three error handlers. The scanner looks at the
  lead byte \<open>b\<close> and the bytes \<open>bs\<close> after it and reports whether a well-formed
  sequence starts there, and how many of the bytes after the lead belong to the sequence
  or, when it is ill-formed, to the error: none (invalid start byte, or a bad first
  continuation), those read so far (a bad later continuation), or all that is left (the
  data ends inside a sequence). Overlong forms, surrogates and code points beyond U+10FFFF
  are refused through the range of the first continuation byte. A well-formed sequence is
  copied (the \<open>str\<close> is held in UTF-8); on an error \<open>strict\<close> raises, \<open>ignore\<close>
  drops the bytes of the error and \<open>replace\<close> puts U+FFFD in their place.
\<close>

datatype errors = Strict | Ignore | Replace

definition chr :: "byte \<Rightarrow> char" where
  "chr b = char_of (unat b)"

definition is_continuation :: "byte \<Rightarrow> bool" where
  "is_continuation b = (0x80 \<le> b \<and> b < 0xC0)"

definition second_ok3 :: "byte \<Rightarrow> byte \<Rightarrow> bool" where
  "second_ok3 b b2 =
     (is_continuation b2 \<and> \<not> (if b2 < 0xA0 then b = 0xE0 else b = 0xED))"

definition second_ok4 :: "byte \<Rightarrow> byte \<Rightarrow> bool" where
  "second_ok4 b b2 =
     (is_continuation b2 \<and> \<not> (if b2 < 0x90 then b = 0xF0 else b = 0xF4))"

definition next_sequence :: "byte \<Rightarrow> byte list \<Rightarrow> bool \<times> nat" where
  "next_sequence b bs =
     (if b < 0x80 then (True, 0)
      else if b < 0xC2 then (False, 0)
      else if b < 0xE0 then
        (case bs of
           [] \<Rightarrow> (False, 0)
         | b2 # bs2 \<Rightarrow> if \<not> is_continuation b2 then (False, 0) else (True, 1))
      else if b < 0xF0 then
        (case bs of
           [] \<Rightarrow> (False, 0)
         | b2 # bs2 \<Rightarrow>
             if \<not> second_ok3 b b2 then (False, 0)
             else
               (case bs2 of
                  [] \<Rightarrow> (False, 1)
                | b3 # bs3 \<Rightarrow> if \<not> is_continuation b3 then (False, 1) else (True, 2)))
      else if b < 0xF5 then
        (case bs of
           [] \<Rightarrow> (False, 0)
         | b2 # bs2 \<Rightarrow>
             if \<not> second_ok4 b b2 then (False, 0)
             else
               (case bs2 of
                  [] \<Rightarrow> (False, 1)
                | b3 # bs3 \<Rightarrow>
                    if \<not> is_continuation b3 then (False, 1)
                    else
                      (case bs3 of
                         [] \<Rightarrow> (False, 2)
                       | b4 # bs4 \<Rightarrow> if \<not> is_continuation b4 then (False, 2) else (True, 3))))
      else (False, 0))"

definition replacement_character :: string where
  "replacement_character = [CHR 0xEF, CHR 0xBF, CHR 0xBD]"

definition emit :: "byte list \<Rightarrow> py_exn + string \<Rightarrow> py_exn + string" where
  "emit bs rest = map_sum id (\<lambda>s. map chr bs @ s) rest"

definition on_error :: "errors \<Rightarrow> py_exn + string \<Rightarrow> py_exn + string" where
  "on_error h rest =
     (case h of
        Strict \<Rightarrow> Inl UnicodeDecodeError
      | Ignore \<Rightarrow> rest
      | Replace \<Rightarrow> map_sum id (\<lambda>s. replacement_character @ s) rest)"

fun decode_utf8 :: "errors \<Rightarrow> byte list \<Rightarrow> py_exn + string" where
  "decode_utf8 h [] = Inr []"
| "decode_utf8 h (b # bs) =
     (case next_sequence b bs of
        (well_formed, k) \<Rightarrow>
          if well_formed then emit (b # take k bs) (decode_utf8 h (drop k bs))
          else on_error h (decode_utf8 h (drop k bs)))"

subsection \<open>Requests, responses and the environment\<close>

text \<open>
  A request as the handlers see it: each field is the value of the expression of the
  source named beside it. The payload has arrived in full, so \<open>await request.body()\<close>
  returns it; \<open>await request.json()\<close> and \<open>await request.form()\<close> are the
  framework's parsers and either return or raise.
\<close>

record request =
  http_method :: string  \<comment> \<open>\<open>request.method\<close>\<close>
  url_path :: string  \<comment> \<open>\<open>request.url.path\<close>\<close>
  url :: string  \<comment> \<open>\<open>str(request.url)\<close>\<close>
  headers :: "(string \<times> string) list"  \<comment> \<open>\<open>dict(request.headers)\<close>\<close>
  query_params :: "(string \<times> string) list"  \<comment> \<open>\<open>dict(request.query_params)\<close>\<close>
  client :: "string option"  \<comment> \<open>\<open>request.client.host if request.client else None\<close>\<close>
  json :: "py_exn + pyval"  \<comment> \<open>\<open>await request.json()\<close>\<close>
  form :: "py_exn + (string \<times> string) list"  \<comment> \<open>\<open>dict(await request.form())\<close>\<close>
  body :: "byte list"  \<comment> \<open>\<open>await request.body()\<close>\<close>

text \<open>The two values a capture draws from outside the request.\<close>

record env =
  uuid4 :: string  \<comment> \<open>\<open>str(uuid.uuid4())\<close>\<close>
  now :: string  \<comment> \<open>\<open>datetime.now().isoformat()\<close>\<close>

text \<open>
  A response object. \<open>JSONResponse\<close> has the default status 200. \<open>NoRoute\<close> stands for
  the framework's own answer when no declared route matches.
\<close>

datatype response =
    JSONResponse pyval
  | TemplateResponse string request pyval
  | NoRoute

type_synonym 'a result = "(py_exn + 'a) \<times> data_file"

text \<open>
  The call \<open>JSONResponse(content)\<close> renders the body at once, with
  \<open>json.dumps(content, allow_nan=False)\<close> and no default: the first \<open>float\<close> that is
  not finite raises \<open>ValueError\<close>, the first \<open>bytes\<close> object \<open>TypeError\<close>,
  whichever the traversal meets first. The rendered text is then encoded as UTF-8, which
  every \<open>str\<close> that is text allows; what the properties say of a response that is
  returned, they say of bodies whose strs are text.
\<close>

fun first_exn :: "py_exn option list \<Rightarrow> py_exn option" where
  "first_exn [] = None"
| "first_exn (None # rest) = first_exn rest"
| "first_exn (Some ex # rest) = Some ex"

fun render_exn :: "pyval \<Rightarrow> py_exn option" where
  "render_exn (PFloat x) = (case x of Finite r \<Rightarrow> None | _ \<Rightarrow> Some ValueError)"
| "render_exn (PBytes bs) = Some TypeError"
| "render_exn (PList xs) = first_exn (map render_exn xs)"
| "render_exn (PDict kvs) = first_exn (map render_exn (map snd kvs))"
| "render_exn v = None"

definition json_response :: "pyval \<Rightarrow> py_exn + response" where
  "json_response content_value =
     (case render_exn content_value of
        Some ex \<Rightarrow> Inl ex
      | None \<Rightarrow> Inr (JSONResponse content_value))"

definition str_dict :: "(string \<times> string) list \<Rightarrow> pyval" where
  "str_dict kvs = PDict (map (map_prod id PStr) kvs)"

text \<open>\<open>len(x)\<close>; a \<open>str\<close> counts code points, the bytes that continue none.\<close>

fun py_len :: "pyval \<Rightarrow> py_exn + nat" where
  "py_len (PList xs) = Inr (length xs)"
| "py_len (PDict kvs) = Inr (length kvs)"
| "py_len (PStr s) = Inr (length (filter (\<lambda>c. \<not> is_continuation (of_char c)) s))"
| "py_len (PBytes bs) = Inr (length bs)"
| "py_len v = Inl TypeError"

subsection \<open>Capture\<close>

text \<open>
  The dictionary \<open>query_data\<close>; the middleware and \<open>track_query_post\<close> build it with
  the same literal.
\<close>

definition query_data :: "env \<Rightarrow> request \<Rightarrow> pyval \<Rightarrow> pyval" where
  "query_data e request body_value =
     PDict [(''query_id'', PStr (uuid4 e)),
            (''timestamp'', PStr (now e)),
            (''method'', PStr (http_method request)),
            (''path'', PStr (url_path request)),
            (''headers'', str_dict (headers request)),
            (''query_params'', str_dict (query_params request)),
            (''body'', body_value),
            (''client_ip'', (case client request of None \<Rightarrow> PNone | Some host \<Rightarrow> PStr host)),
            (''url'', PStr (url request))]"

text \<open>
  The body of \<open>track_query_post\<close>: \<open>request.json()\<close>; if that raises (bare
  \<open>except\<close>), \<open>request.form()\<close>; if that raises, the payload decoded with
  \<open>errors="ignore"\<close>.
\<close>

definition post_body :: "request \<Rightarrow> py_exn + pyval" where
  "post_body request =
     (case json request of
        Inr parsed \<Rightarrow> Inr parsed
      | Inl _ \<Rightarrow>
          (case form request of
             Inr items \<Rightarrow> Inr (str_dict items)
           | Inl _ \<Rightarrow>
               (case decode_utf8 Ignore (body request) of
                  Inl e \<Rightarrow> Inl e
                | Inr text \<Rightarrow> Inr (PDict [(''raw_body'', PStr text)]))))"

text \<open>The same chain in the middleware keeps the payload as \<open>bytes\<close>.\<close>

definition middleware_body :: "request \<Rightarrow> py_exn + pyval" where
  "middleware_body request =
     (case json request of
        Inr parsed \<Rightarrow> Inr parsed
      | Inl _ \<Rightarrow>
          (case form request of
             Inr items \<Rightarrow> Inr (str_dict items)
           | Inl _ \<Rightarrow> Inr (PDict [(''raw_body'', PBytes (body request))])))"

definition track_query_post :: "env \<Rightarrow> request \<Rightarrow> data_file \<Rightarrow> response result" where
  "track_query_post e request f =
     (case post_body request of
        Inl ex \<Rightarrow> (Inl ex, f)
      | Inr body_value \<Rightarrow>
          (case save_query (query_data e request body_value) f of
             Inl ex \<Rightarrow> (Inl ex, f)
           | Inr f' \<Rightarrow>
               (json_response
                  (PDict [(''message'', PStr ''Query tracked successfully''),
                          (''query_id'', PStr (uuid4 e)),
                          (''timestamp'', PStr (now e)),
                          (''query_params'', str_dict (query_params request)),
                          (''body'', body_value)]),
                f')))"

definition track_query_put :: "env \<Rightarrow> request \<Rightarrow> data_file \<Rightarrow> response result" where
  "track_query_put e request f = track_query_post e request f"

definition track_query_patch :: "env \<Rightarrow> request \<Rightarrow> data_file \<Rightarrow> response result" where
  "track_query_patch e request f = track_query_post e request f"

text \<open>The declared GET handler is \<open>pass\<close>: it returns \<open>None\<close>.\<close>

definition track_query_get :: "request \<Rightarrow> data_file \<Rightarrow> pyval result" where
  "track_query_get request f = (Inr PNone, f)"

text \<open>
  The middleware. \<open>call_next\<close> is the rest of the application; the branch for
  \<open>/track-query\<close> and GET returns without calling it.
\<close>

definition log_queries ::
  "env \<Rightarrow> request \<Rightarrow> (request \<Rightarrow> data_file \<Rightarrow> response result) \<Rightarrow> data_file \<Rightarrow> response result"
where
  "log_queries e request call_next f =
     (if url_path request = ''/track-query'' \<and> http_method request = ''GET'' then
        (case (if http_method request \<in> set [''POST'', ''PUT'', ''PATCH'']
               then middleware_body request else Inr (PDict [])) of
           Inl ex \<Rightarrow> (Inl ex, f)
         | Inr body_value \<Rightarrow>
             (case save_query (query_data e request body_value) f of
                Inl ex \<Rightarrow> (Inl ex, f)
              | Inr f' \<Rightarrow>
                  (json_response
                     (PDict [(''message'', PStr ''Query tracked successfully''),
                             (''query_id'', PStr (uuid4 e)),
                             (''timestamp'', PStr (now e)),
                             (''query_params'', str_dict (query_params request))]),
                   f')))
      else call_next request f)"

subsection \<open>Query service\<close>

definition get_queries_html :: "request \<Rightarrow> data_file \<Rightarrow> response result" where
  "get_queries_html request f =
     (case load_queries f of
        Inl ex \<Rightarrow> (Inl ex, f)
      | Inr queries \<Rightarrow>
          (case py_len queries of
             Inl ex \<Rightarrow> (Inl ex, f)
           | Inr n \<Rightarrow>
               (Inr (TemplateResponse ''queries.html'' request
                       (PDict [(''queries'', queries), (''queries_count'', PInt (int n))])),
                f)))"

definition get_queries_api :: "data_file \<Rightarrow> pyval result" where
  "get_queries_api f =
     (case load_queries f of
        Inl ex \<Rightarrow> (Inl ex, f)
      | Inr queries \<Rightarrow>
          (case py_len queries of
             Inl ex \<Rightarrow> (Inl ex, f)
           | Inr n \<Rightarrow> (Inr (PDict [(''queries'', queries), (''count'', PInt (int n))]), f)))"

definition clear_queries :: "data_file \<Rightarrow> pyval result" where
  "clear_queries f =
     (case write_json (PList []) f of
        Inl ex \<Rightarrow> (Inl ex, f)
      | Inr f' \<Rightarrow> (Inr (PDict [(''message'', PStr ''All queries cleared successfully'')]), f'))"

subsection \<open>Routing\<close>

text \<open>
  The route table the decorators declare. A handler that returns a plain value has it
  passed through the framework's \<open>jsonable_encoder\<close>, which leaves JSON values as they
  are and decodes a \<open>bytes\<close> object as UTF-8, and then sent as a \<open>JSONResponse\<close>.
\<close>

fun all_or_first :: "(py_exn + 'a) list \<Rightarrow> py_exn + 'a list" where
  "all_or_first [] = Inr []"
| "all_or_first (Inl ex # rest) = Inl ex"
| "all_or_first (Inr x # rest) = map_sum id ((#) x) (all_or_first rest)"

fun jsonable_encoder :: "pyval \<Rightarrow> py_exn + pyval" where
  "jsonable_encoder (PBytes bs) = map_sum id PStr (decode_utf8 Strict bs)"
| "jsonable_encoder (PList xs) = map_sum id PList (all_or_first (map jsonable_encoder xs))"
| "jsonable_encoder (PDict kvs) =
     map_sum id (\<lambda>vs. PDict (zip (map fst kvs) vs))
       (all_or_first (map jsonable_encoder (map snd kvs)))"
| "jsonable_encoder v = Inr v"

definition as_json :: "pyval result \<Rightarrow> response result" where
  "as_json r =
     (case r of
        (Inl ex, f) \<Rightarrow> (Inl ex, f)
      | (Inr v, f) \<Rightarrow>
          (case jsonable_encoder v of
             Inl ex \<Rightarrow> (Inl ex, f)
           | Inr encoded \<Rightarrow> (json_response encoded, f)))"

definition router :: "env \<Rightarrow> request \<Rightarrow> data_file \<Rightarrow> response result" where
  "router e request f =
     (let p = url_path request; m = http_method request in
      if p = ''/track-query'' \<and> m = ''GET'' then as_json (track_query_get request f)
      else if p = ''/track-query'' \<and> m = ''POST'' then track_query_post e request f
      else if p = ''/track-query'' \<and> m = ''PUT'' then track_query_put e request f
      else if p = ''/track-query'' \<and> m = ''PATCH'' then track_query_patch e request f
      else if p = ''/queries'' \<and> m = ''GET'' then get_queries_html request f
      else if p = ''/api/queries'' \<and> m = ''GET'' then as_json (get_queries_api f)
      else if p = ''/clear-queries'' \<and> m = ''POST'' then as_json (clear_queries f)
      else (Inr NoRoute, f))"

definition app :: "env \<Rightarrow> request \<Rightarrow> data_file \<Rightarrow> response result" where
  "app e request f = log_queries e request (router e) f"

subsection \<open>Runs and observations used by the properties\<close>

text \<open>
  A run of appends feeds the records to \<open>save_query\<close> one after the other, each on the
  file the one before left; an exception ends the run.
\<close>

fun appends :: "pyval list \<Rightarrow> data_file \<Rightarrow> py_exn + data_file" where
  "appends [] f = Inr f"
| "appends (r # rs) f = (case save_query r f of Inl ex \<Rightarrow> Inl ex | Inr f' \<Rightarrow> appends rs f')"

text \<open>\<open>d.get(k)\<close>, to read a field of a record or of a response.\<close>

fun dict_get :: "pyval \<Rightarrow> string \<Rightarrow> pyval option" where
  "dict_get (PDict kvs) k = map_of kvs k"
| "dict_get v k = None"



text \<open>
  The body policy in the words of the specification, for comparison with \<open>post_body\<close>:
  a structured document, else form fields, else the payload as text with undecodable
  bytes replaced.
\<close>

definition spec_body :: "request \<Rightarrow> py_exn + pyval" where
  "spec_body request =
     (case json request of
        Inr parsed \<Rightarrow> Inr parsed
      | Inl _ \<Rightarrow>
          (case form request of
             Inr items \<Rightarrow> Inr (str_dict items)
           | Inl _ \<Rightarrow>
               (case decode_utf8 Replace (body request) of
                  Inl e \<Rightarrow> Inl e
                | Inr text \<Rightarrow> Inr (PDict [(''raw_body'', PStr text)]))))"

text \<open>
  Example inputs: a GET of \<open>/track-query?x=5\<close>; a POST whose payload is the single
  byte \<open>0xFF\<close>, which neither \<open>request.json()\<close> nor \<open>request.form()\<close> accepts
  (the content type announces a multipart form); a PUT with a JSON object; a POST of a
  form; a POST of the text \<open>hi\<close> that neither parser accepts; a PUT whose payload is
  \<open>NaN\<close>, which \<open>request.json()\<close> parses to the float \<open>nan\<close>.
\<close>

definition example_env :: env where
  "example_env =
     \<lparr>uuid4 = ''3f2b8c1e-5d4a-4e6f-9a7b-0c1d2e3f4a5b'', now = ''2024-01-01T12:00:00''\<rparr>"

definition example_get :: request where
  "example_get =
     \<lparr>http_method = ''GET'', url_path = ''/track-query'',
      url = ''http://localhost:8000/track-query?x=5'',
      headers = [(''host'', ''localhost:8000'')],
      query_params = [(''x'', ''5'')],
      client = Some ''127.0.0.1'',
      json = Inl JSONDecodeError, form = Inr [], body = []\<rparr>"

definition example_binary_post :: request where
  "example_binary_post =
     \<lparr>http_method = ''POST'', url_path = ''/track-query'',
      url = ''http://localhost:8000/track-query'',
      headers = [(''host'', ''localhost:8000''),
                 (''content-type'', ''multipart/form-data; boundary=x'')],
      query_params = [],
      client = None,
      json = Inl UnicodeDecodeError, form = Inl (OtherError ''HTTPException''),
      body = [0xFF]\<rparr>"

definition example_form_post :: request where
  "example_form_post =
     \<lparr>http_method = ''POST'', url_path = ''/track-query'',
      url = ''http://localhost:8000/track-query'',
      headers = [(''content-type'', ''application/x-www-form-urlencoded'')],
      query_params = [],
      client = Some ''127.0.0.1'',
      json = Inl JSONDecodeError, form = Inr [(''name'', ''alice'')],
      body = [0x6E, 0x61, 0x6D, 0x65, 0x3D, 0x61, 0x6C, 0x69, 0x63, 0x65]\<rparr>"

definition example_text_post :: request where
  "example_text_post =
     \<lparr>http_method = ''POST'', url_path = ''/track-query'',
      url = ''http://localhost:8000/track-query'',
      headers = [(''content-type'', ''multipart/form-data'')],
      query_params = [],
      client = Some ''127.0.0.1'',
      json = Inl JSONDecodeError, form = Inl (OtherError ''HTTPException''),
      body = [0x68, 0x69]\<rparr>"


definition example_put :: request where
  "example_put =
     \<lparr>http_method = ''PUT'', url_path = ''/track-query'',
      url = ''http://localhost:8000/track-query?a=1'',
      headers = [(''content-type'', ''application/json'')],
      query_params = [(''a'', ''1'')],
      client = Some ''127.0.0.1'',
      json = Inr (PDict [(''q'', PStr ''hello'')]), form = Inr [],
      body = [0x7B, 0x22, 0x71, 0x22, 0x3A, 0x22, 0x68, 0x65, 0x6C, 0x6C, 0x6F, 0x22, 0x7D]\<rparr>"

section \<open>Properties\<close>

subsection \<open>Serialisation\<close>

lemma jsonable_native: "json_native v \<Longrightarrow> jsonable v = v"
proof (induction v)
  case (PList xs)
  then show ?case by (simp add: list_all_iff map_idI)
next
  case (PDict kvs)
  have "map_prod id jsonable kv = kv" if "kv \<in> set kvs" for kv
  proof -
    obtain k v where kv: "kv = (k, v)" by (cases kv)
    with that PDict.prems have "json_native v" by (auto simp: list_all_iff)
    with PDict.IH [of kv v] that kv show ?thesis by simp
  qed
  then show ?case by (simp add: map_idI)
qed simp_all

lemma json_native_jsonable: "json_native (jsonable v)"
  by (induction v) (auto simp: list_all_iff)

lemma json_native_str_dict: "json_native (str_dict kvs)"
  by (simp add: str_dict_def list_all_iff)

lemma json_native_query_data:
  "json_native body_value \<Longrightarrow> json_native (query_data e request body_value)"
  by (simp add: query_data_def json_native_str_dict split: option.split)

subsection \<open>The store\<close>

lemma load_queries_simps:
  "load_queries Absent = Inr (PList [])"
  "load_queries Unreadable = Inl PermissionError"
  "load_queries (Holds Malformed) = Inr (PList [])"
  "load_queries (Holds (Rejected ex)) =
     (if ex = JSONDecodeError \<or> ex = FileNotFoundError then Inr (PList []) else Inl ex)"
  "load_queries (Holds (Document v)) = Inr (jsonable v)"
  by (simp_all add: load_queries_def path_exists_def)

lemma load_queries_native: "load_queries f = Inr v \<Longrightarrow> json_native v"
  by (cases f rule: read_json.cases)
     (auto simp: load_queries_simps json_native_jsonable split: if_splits)

lemma load_queries_readable: "load_queries f = Inr v \<Longrightarrow> f \<noteq> Unreadable"
  by (auto simp: load_queries_simps)

lemma write_json_readable: "f \<noteq> Unreadable \<Longrightarrow> write_json v f = Inr (Holds (Document v))"
  by (cases f) simp_all

lemma last_slice_short: "length xs \<le> k \<Longrightarrow> last_slice k xs = xs"
  by (simp add: last_slice_def)

lemma length_last_slice: "length (last_slice k xs) = min (length xs) k"
  by (simp add: last_slice_def)

lemma last_slice_append: "last_slice k (last_slice k xs @ ys) = last_slice k (xs @ ys)"
proof (cases "length xs \<le> k")
  case True
  then show ?thesis by (simp add: last_slice_short)
next
  case False
  then have "length xs + length ys - (length xs - k + k) + (length xs - k)
               = length xs + length ys - k"
    by arith
  then show ?thesis by (simp add: last_slice_def)
qed

text \<open>What one \<open>save_query\<close> leaves in the file, and what is read back from it.\<close>

lemma save_query_log:
  assumes "load_queries f = Inr (PList qs)"
  shows "save_query r f = Inr (Holds (Document (PList (last_slice 100 (qs @ [r])))))"
proof -
  have "(if 100 < length (qs @ [r]) then last_slice 100 (qs @ [r]) else qs @ [r])
          = last_slice 100 (qs @ [r])"
    by (simp add: last_slice_short)
  with assms load_queries_readable [OF assms] show ?thesis
    by (simp add: save_query_def write_json_readable)
qed

lemma load_after_save:
  assumes "load_queries f = Inr (PList qs)"
  shows "\<exists>f'. save_query r f = Inr f' \<and>
              load_queries f' = Inr (PList (last_slice 100 (qs @ [jsonable r])))"
proof -
  from load_queries_native [OF assms] have "list_all json_native qs" by simp
  then have "map jsonable qs = qs"
    by (simp add: list_all_iff map_idI jsonable_native)
  then have "map jsonable (last_slice 100 (qs @ [r])) = last_slice 100 (qs @ [jsonable r])"
    by (simp add: last_slice_def drop_map [symmetric])
  then show ?thesis
    by (simp add: save_query_log [OF assms] load_queries_simps)
qed

lemma appends_log:
  assumes "load_queries f = Inr (PList qs)" and "length qs \<le> 100"
    and "list_all json_native rs"
  shows "\<exists>f'. appends rs f = Inr f' \<and> load_queries f' = Inr (PList (last_slice 100 (qs @ rs)))"
  using assms
proof (induction rs arbitrary: f qs)
  case Nil
  then show ?case by (simp add: last_slice_short)
next
  case (Cons r rs)
  from Cons.prems(3) have r: "jsonable r = r" and rs: "list_all json_native rs"
    by (simp_all add: jsonable_native)
  from load_after_save [OF Cons.prems(1), of r] r obtain f1
    where f1: "save_query r f = Inr f1"
      and l1: "load_queries f1 = Inr (PList (last_slice 100 (qs @ [r])))"
    by auto
  have "length (last_slice 100 (qs @ [r])) \<le> 100"
    by (simp add: length_last_slice)
  from Cons.IH [OF l1 this rs] obtain f'
    where "appends rs f1 = Inr f'"
      and "load_queries f' = Inr (PList (last_slice 100 (last_slice 100 (qs @ [r]) @ rs)))"
    by auto
  with f1 show ?case by (simp add: last_slice_append)
qed



text \<open>
  C3, as the code has it. \<open>load_queries\<close> returns the empty list when the file is
  absent and when \<open>json.load\<close> rejects its text with \<open>JSONDecodeError\<close>. Every other
  failure of the read passes the \<open>except\<close> clause and reaches the caller: a file that
  cannot be opened, bytes that are not text, nesting beyond the recursion limit, and in
  general whatever \<open>json.load\<close> raises that is neither \<open>JSONDecodeError\<close> nor
  \<open>FileNotFoundError\<close>.
\<close>

theorem load_queries_recovers_absent_and_malformed:
  "load_queries Absent = Inr (PList [])
   \<and> load_queries (Holds Malformed) = Inr (PList [])
   \<and> load_queries Unreadable = Inl PermissionError
   \<and> load_queries (Holds (Rejected UnicodeDecodeError)) = Inl UnicodeDecodeError
   \<and> load_queries (Holds (Rejected RecursionError)) = Inl RecursionError
   \<and> load_queries (Holds (Rejected ex)) =
       (if ex = JSONDecodeError \<or> ex = FileNotFoundError then Inr (PList []) else Inl ex)"
  by (simp add: load_queries_def path_exists_def)

text \<open>
  C3, as stated, fails: a file that cannot be opened does not load as the empty list, and
  neither does one whose bytes are not text.
\<close>

theorem load_queries_unreadable_counterexample:
  "load_queries Unreadable \<noteq> Inr (PList [])
   \<and> load_queries (Holds (Rejected UnicodeDecodeError)) \<noteq> Inr (PList [])"
  by (simp add: load_queries_def path_exists_def)





subsection \<open>The decoder\<close>

lemma emit_eq_Inr: "emit bs r = Inr t \<longleftrightarrow> (\<exists>s. r = Inr s \<and> t = map chr bs @ s)"
  by (cases r) (auto simp: emit_def)

lemma on_error_Ignore: "on_error Ignore r = r"
  by (simp add: on_error_def)

lemma on_error_Strict: "on_error Strict r = Inl UnicodeDecodeError"
  by (simp add: on_error_def)

text \<open>With \<open>ignore\<close> or \<open>replace\<close> the decoder returns on every input.\<close>

lemma decode_lenient_total: "h \<noteq> Strict \<Longrightarrow> \<exists>s. decode_utf8 h bs = Inr s"
proof (induction h bs rule: decode_utf8.induct)
  case (1 h)
  show ?case by simp
next
  case (2 h b bs)
  obtain ok k where nx: "next_sequence b bs = (ok, k)" by (cases "next_sequence b bs")
  from "2.IH" [OF nx [symmetric]] "2.prems" obtain s where "decode_utf8 h (drop k bs) = Inr s"
    by (cases ok) auto
  with nx "2.prems" show ?case by (cases h) (simp_all add: emit_eq_Inr on_error_def)
qed

text \<open>With \<open>ignore\<close> the result is the payload with some bytes left out.\<close>

lemma decode_ignore_subseq_gen:
  "h = Ignore \<Longrightarrow> decode_utf8 h bs = Inr s \<Longrightarrow> subseq s (map chr bs)"
proof (induction h bs arbitrary: s rule: decode_utf8.induct)
  case (1 h)
  then show ?case by simp
next
  case (2 h b bs)
  note h = \<open>h = Ignore\<close>
  obtain ok k where nx: "next_sequence b bs = (ok, k)" by (cases "next_sequence b bs")
  show ?case
  proof (cases ok)
    case True
    with "2.prems" nx obtain s' where s': "decode_utf8 h (drop k bs) = Inr s'"
      and s: "s = chr b # map chr (take k bs) @ s'"
      by (auto simp: emit_eq_Inr)
    from "2.IH"(1) [OF nx [symmetric] True h s'] have "subseq s' (map chr (drop k bs))" .
    then have "subseq (map chr (take k bs) @ s') (map chr (take k bs) @ map chr (drop k bs))"
      by (simp add: list_emb_append_mono)
    then have "subseq (map chr (take k bs) @ s') (map chr bs)"
      by (simp flip: map_append)
    with s show ?thesis by simp
  next
    case False
    with "2.prems" nx have s': "decode_utf8 h (drop k bs) = Inr s"
      by (simp add: on_error_Ignore)
    from "2.IH"(2) [OF nx [symmetric] False h s'] have "subseq s (map chr (drop k bs))" .
    then have "subseq s (map chr (take k bs) @ map chr (drop k bs))"
      by (rule list_emb_append2)
    then have "subseq s (map chr bs)"
      by (simp flip: map_append)
    then show ?thesis by (simp add: list_emb_Cons)
  qed
qed

lemma decode_ignore_subseq: "decode_utf8 Ignore bs = Inr s \<Longrightarrow> subseq s (map chr bs)"
  by (rule decode_ignore_subseq_gen [OF refl])

text \<open>Where \<open>strict\<close> succeeds the text is the payload, under every handler.\<close>

lemma decode_strict_copy_gen:
  "h = Strict \<Longrightarrow> decode_utf8 h bs = Inr t
     \<Longrightarrow> t = map chr bs \<and> decode_utf8 h' bs = Inr t"
proof (induction h bs arbitrary: t rule: decode_utf8.induct)
  case (1 h)
  then show ?case by simp
next
  case (2 h b bs)
  note h = \<open>h = Strict\<close>
  obtain ok k where nx: "next_sequence b bs = (ok, k)" by (cases "next_sequence b bs")
  from "2.prems" nx have ok by (cases ok) (simp_all add: on_error_Strict)
  with "2.prems" nx obtain t' where t': "decode_utf8 h (drop k bs) = Inr t'"
    and t: "t = chr b # map chr (take k bs) @ t'"
    by (auto simp: emit_eq_Inr)
  from "2.IH"(1) [OF nx [symmetric] \<open>ok\<close> h t']
  have "t' = map chr (drop k bs)" and "decode_utf8 h' (drop k bs) = Inr t'" by simp_all
  with t nx \<open>ok\<close> show ?case
    by (simp add: emit_eq_Inr flip: map_append)
qed

lemma decode_strict_copy:
  "decode_utf8 Strict bs = Inr t \<Longrightarrow> t = map chr bs \<and> decode_utf8 h' bs = Inr t"
  by (rule decode_strict_copy_gen [OF refl])

lemma decode_invalid_byte:
  "decode_utf8 Ignore [0xFF] = Inr []"
  "decode_utf8 Replace [0xFF] = Inr replacement_character"
  "decode_utf8 Strict [0xFF] = Inl UnicodeDecodeError"
  by (simp_all add: next_sequence_def on_error_def)

subsection \<open>Capture\<close>





text \<open>
  C4, as the code has it. The body is the result of \<open>request.json()\<close> when that
  returns; else the form fields when \<open>request.form()\<close> returns; else
  \<open>{"raw_body": text}\<close>, where the text is the payload decoded with undecodable bytes
  dropped: some of the payload's bytes in their order, and all of them when the payload is
  well-formed UTF-8.
\<close>

theorem post_body_policy:
  "(\<forall>parsed. json request = Inr parsed \<longrightarrow> post_body request = Inr parsed)
   \<and> (\<forall>ex items. json request = Inl ex \<and> form request = Inr items \<longrightarrow>
          post_body request = Inr (str_dict items))
   \<and> (\<forall>ex ex'. json request = Inl ex \<and> form request = Inl ex' \<longrightarrow>
          (\<exists>decoded. post_body request = Inr (PDict [(''raw_body'', PStr decoded)])
             \<and> decode_utf8 Ignore (body request) = Inr decoded
             \<and> subseq decoded (map chr (body request))
             \<and> (\<forall>t. decode_utf8 Strict (body request) = Inr t \<longrightarrow> decoded = t)))"
proof (intro conjI allI impI)
  fix parsed
  assume "json request = Inr parsed"
  then show "post_body request = Inr parsed"
    by (simp add: post_body_def)
next
  fix ex items
  assume "json request = Inl ex \<and> form request = Inr items"
  then show "post_body request = Inr (str_dict items)"
    by (simp add: post_body_def)
next
  fix ex ex'
  assume failed: "json request = Inl ex \<and> form request = Inl ex'"
  obtain decoded where d: "decode_utf8 Ignore (body request) = Inr decoded"
    using decode_lenient_total [of Ignore "body request"] by auto
  from failed d have "post_body request = Inr (PDict [(''raw_body'', PStr decoded)])"
    by (simp add: post_body_def)
  moreover from d have "subseq decoded (map chr (body request))"
    by (rule decode_ignore_subseq)
  moreover have "decoded = t" if "decode_utf8 Strict (body request) = Inr t" for t
    using decode_strict_copy [OF that, of Ignore] d by simp
  ultimately show "\<exists>decoded. post_body request = Inr (PDict [(''raw_body'', PStr decoded)])
      \<and> decode_utf8 Ignore (body request) = Inr decoded
      \<and> subseq decoded (map chr (body request))
      \<and> (\<forall>t. decode_utf8 Strict (body request) = Inr t \<longrightarrow> decoded = t)"
    using d by blast
qed

theorem post_body_policy_witness:
  "(json example_put = Inr (PDict [(''q'', PStr ''hello'')])
      \<and> post_body example_put = Inr (PDict [(''q'', PStr ''hello'')]))
   \<and> (json example_form_post = Inl JSONDecodeError
      \<and> form example_form_post = Inr [(''name'', ''alice'')]
      \<and> post_body example_form_post = Inr (PDict [(''name'', PStr ''alice'')]))
   \<and> (json example_text_post = Inl JSONDecodeError
      \<and> form example_text_post = Inl (OtherError ''HTTPException'')
      \<and> decode_utf8 Strict (body example_text_post) = Inr ''hi''
      \<and> post_body example_text_post = Inr (PDict [(''raw_body'', PStr ''hi'')]))"
proof -
  have s: "decode_utf8 Strict (body example_text_post) = Inr ''hi''"
    by code_simp
  from post_body_policy [of example_put] have "post_body example_put = Inr (PDict [(''q'', PStr ''hello'')])"
    by (simp add: example_put_def)
  moreover from post_body_policy [of example_form_post]
  have "post_body example_form_post = Inr (PDict [(''name'', PStr ''alice'')])"
    by (simp add: example_form_post_def str_dict_def)
  moreover from post_body_policy [of example_text_post] s
  have "post_body example_text_post = Inr (PDict [(''raw_body'', PStr ''hi'')])"
    by (auto simp: example_text_post_def)
  ultimately show ?thesis using s
    by (simp add: example_put_def example_form_post_def example_text_post_def)
qed

text \<open>
  C4, as stated, fails: for the payload \<open>0xFF\<close> that neither parser accepts, the code
  stores the empty text, where replacing the undecodable byte gives U+FFFD.
\<close>

theorem post_body_replaced_counterexample:
  "post_body example_binary_post = Inr (PDict [(''raw_body'', PStr [])])
   \<and> spec_body example_binary_post = Inr (PDict [(''raw_body'', PStr [CHR 0xEF, CHR 0xBF, CHR 0xBD])])
   \<and> post_body example_binary_post \<noteq> spec_body example_binary_post"
  by (simp add: post_body_def spec_body_def example_binary_post_def next_sequence_def
        on_error_def replacement_character_def)

subsection \<open>Query service\<close>

lemma get_queries_api_log:
  "load_queries f = Inr (PList qs) \<Longrightarrow>
     get_queries_api f =
       (Inr (PDict [(''queries'', PList qs), (''count'', PInt (int (length qs)))]), f)"
  by (simp add: get_queries_api_def)

text \<open>
  C5. From an absent file and from any content, corrupt or not, \<open>clear_queries\<close> returns
  its acknowledgement and leaves the empty list in the file; the list operation then
  returns no records and the count 0.
\<close>

theorem clear_then_list_is_empty:
  "clear_queries Absent =
     (Inr (PDict [(''message'', PStr ''All queries cleared successfully'')]),
      Holds (Document (PList [])))
   \<and> clear_queries (Holds c) =
     (Inr (PDict [(''message'', PStr ''All queries cleared successfully'')]),
      Holds (Document (PList [])))
   \<and> get_queries_api (Holds (Document (PList []))) =
     (Inr (PDict [(''queries'', PList []), (''count'', PInt 0)]), Holds (Document (PList [])))"
  by (simp add: clear_queries_def get_queries_api_def load_queries_simps)

text \<open>
  C9. The list operation returns the whole log, in the order \<open>load_queries\<close> gives it,
  with its length as the count; \<open>GET /api/queries\<close> is routed to it. After three appends
  to an empty log it returns the three records in the order appended, and the count 3.
\<close>

theorem list_returns_log_and_count:
  "(load_queries f = Inr (PList qs) \<longrightarrow>
      get_queries_api f =
        (Inr (PDict [(''queries'', PList qs), (''count'', PInt (int (length qs)))]), f))
   \<and> (url_path request = ''/api/queries'' \<and> http_method request = ''GET'' \<longrightarrow>
        app e request f = as_json (get_queries_api f))
   \<and> (load_queries f = Inr (PList []) \<and> json_native r1 \<and> json_native r2 \<and> json_native r3 \<longrightarrow>
        (\<exists>f'. appends [r1, r2, r3] f = Inr f'
           \<and> get_queries_api f' =
               (Inr (PDict [(''queries'', PList [r1, r2, r3]), (''count'', PInt 3)]), f')))"
proof (intro conjI impI)
  assume "load_queries f = Inr (PList qs)"
  then show "get_queries_api f =
      (Inr (PDict [(''queries'', PList qs), (''count'', PInt (int (length qs)))]), f)"
    by (rule get_queries_api_log)
next
  assume "url_path request = ''/api/queries'' \<and> http_method request = ''GET''"
  then show "app e request f = as_json (get_queries_api f)"
    by (simp add: app_def log_queries_def router_def)
next
  assume a: "load_queries f = Inr (PList []) \<and> json_native r1 \<and> json_native r2 \<and> json_native r3"
  then have "list_all json_native [r1, r2, r3]" by simp
  from appends_log [OF _ _ this, of f "[]"] a obtain f'
    where run: "appends [r1, r2, r3] f = Inr f'"
      and "load_queries f' = Inr (PList (last_slice 100 [r1, r2, r3]))"
    by auto
  then have "load_queries f' = Inr (PList [r1, r2, r3])"
    by (simp add: last_slice_def)
  from get_queries_api_log [OF this] run
  show "\<exists>f'. appends [r1, r2, r3] f = Inr f'
      \<and> get_queries_api f' =
          (Inr (PDict [(''queries'', PList [r1, r2, r3]), (''count'', PInt 3)]), f')"
    by simp
qed

theorem list_returns_log_and_count_witness:
  "load_queries (Holds Malformed) = Inr (PList [])
   \<and> get_queries_api (Holds Malformed) =
       (Inr (PDict [(''queries'', PList []), (''count'', PInt 0)]), Holds Malformed)
   \<and> json_native (PStr ''a'') \<and> json_native (PStr ''b'') \<and> json_native (PStr ''c'')
   \<and> (\<exists>f'. appends [PStr ''a'', PStr ''b'', PStr ''c''] (Holds Malformed) = Inr f'
         \<and> get_queries_api f' =
             (Inr (PDict [(''queries'', PList [PStr ''a'', PStr ''b'', PStr ''c'']),
                          (''count'', PInt 3)]), f'))
   \<and> url_path (example_get\<lparr>url_path := ''/api/queries''\<rparr>) = ''/api/queries''
   \<and> http_method (example_get\<lparr>url_path := ''/api/queries''\<rparr>) = ''GET''
   \<and> app example_env (example_get\<lparr>url_path := ''/api/queries''\<rparr>) (Holds Malformed) =
       (Inr (JSONResponse (PDict [(''queries'', PList []), (''count'', PInt 0)])), Holds Malformed)"
proof -
  have l: "load_queries (Holds Malformed) = Inr (PList [])"
    by (simp add: load_queries_simps)
  have g: "http_method example_get = ''GET''"
    by (simp add: example_get_def)
  from l g
    list_returns_log_and_count
      [of "Holds Malformed" "[]" "example_get\<lparr>url_path := ''/api/queries''\<rparr>" example_env
          "PStr ''a''" "PStr ''b''" "PStr ''c''"]
  show ?thesis by (simp add: as_json_def json_response_def)
qed

subsection \<open>Interception and routing\<close>

lemma render_exn_str_dict: "render_exn (str_dict kvs) = None"
  by (induction kvs) (simp_all add: str_dict_def)



text \<open>
  C7. For a GET of \<open>/track-query\<close> and a store that loads, the middleware answers
  itself, with the message, the generated id, the timestamp and the query parameters, and
  its answer is the same whatever \<open>call_next\<close> is: the routes behind it, where the
  declared handler would answer \<open>null\<close>, are not consulted. The record it appends has
  the empty dictionary as body.
\<close>

theorem get_track_query_is_intercepted:
  assumes "url_path request = ''/track-query''" and "http_method request = ''GET''"
    and "load_queries f = Inr (PList qs)"
  shows "\<exists>f' log.
           (\<forall>call_next. log_queries e request call_next f =
              (Inr (JSONResponse
                      (PDict [(''message'', PStr ''Query tracked successfully''),
                              (''query_id'', PStr (uuid4 e)),
                              (''timestamp'', PStr (now e)),
                              (''query_params'', str_dict (query_params request))])),
               f'))
           \<and> app e request f =
              (Inr (JSONResponse
                      (PDict [(''message'', PStr ''Query tracked successfully''),
                              (''query_id'', PStr (uuid4 e)),
                              (''timestamp'', PStr (now e)),
                              (''query_params'', str_dict (query_params request))])),
               f')
           \<and> router e request f = (Inr (JSONResponse PNone), f)
           \<and> load_queries f' = Inr (PList log) \<and> log \<noteq> []
           \<and> last log = query_data e request (PDict [])
           \<and> dict_get (last log) ''body'' = Some (PDict [])"
proof -
  let ?r = "query_data e request (PDict [])"
  have "json_native ?r"
    by (simp add: json_native_query_data)
  then have "jsonable ?r = ?r"
    by (rule jsonable_native)
  with load_after_save [OF assms(3), of ?r] obtain f'
    where s: "save_query ?r f = Inr f'"
      and l: "load_queries f' = Inr (PList (last_slice 100 (qs @ [?r])))"
    by auto
  have "last_slice 100 (qs @ [?r]) \<noteq> []" and "last (last_slice 100 (qs @ [?r])) = ?r"
    by (simp_all add: last_slice_def)
  moreover have "dict_get ?r ''body'' = Some (PDict [])"
    by (simp add: query_data_def)
  moreover from assms(1,2) s have
    "log_queries e request call_next f =
       (Inr (JSONResponse
               (PDict [(''message'', PStr ''Query tracked successfully''),
                       (''query_id'', PStr (uuid4 e)),
                       (''timestamp'', PStr (now e)),
                       (''query_params'', str_dict (query_params request))])),
        f')" for call_next
    by (simp add: log_queries_def json_response_def render_exn_str_dict)
  moreover from assms(1,2) have "router e request f = (Inr (JSONResponse PNone), f)"
    by (simp add: router_def track_query_get_def as_json_def json_response_def)
  ultimately show ?thesis using l
    by (auto simp: app_def)
qed

theorem get_track_query_is_intercepted_witness:
  "url_path example_get = ''/track-query'' \<and> http_method example_get = ''GET''
   \<and> load_queries Absent = Inr (PList [])
   \<and> (\<exists>f' log.
         app example_env example_get Absent =
           (Inr (JSONResponse
                   (PDict [(''message'', PStr ''Query tracked successfully''),
                           (''query_id'', PStr ''3f2b8c1e-5d4a-4e6f-9a7b-0c1d2e3f4a5b''),
                           (''timestamp'', PStr ''2024-01-01T12:00:00''),
                           (''query_params'', PDict [(''x'', PStr ''5'')])])),
            f')
         \<and> router example_env example_get Absent = (Inr (JSONResponse PNone), Absent)
         \<and> load_queries f' = Inr (PList log)
         \<and> dict_get (last log) ''body'' = Some (PDict []))"
proof -
  have p: "url_path example_get = ''/track-query''" and m: "http_method example_get = ''GET''"
    by (simp_all add: example_get_def)
  have l: "load_queries Absent = Inr (PList [])"
    by (simp add: load_queries_simps)
  have "uuid4 example_env = ''3f2b8c1e-5d4a-4e6f-9a7b-0c1d2e3f4a5b''"
    and "now example_env = ''2024-01-01T12:00:00''"
    and "str_dict (query_params example_get) = PDict [(''x'', PStr ''5'')]"
    by (simp_all add: example_env_def example_get_def str_dict_def)
  with p m l get_track_query_is_intercepted [OF p m l, of example_env]
  show ?thesis by auto
qed




end
